theory Spec2Isabelle
  imports Main "HOL-Library.AList"
begin

section \<open>Strings and characters\<close>

text \<open>
  A JavaScript string is modelled as a \<open>string\<close>: a list of 8-bit code units, read as the
  code points U+0000 to U+00FF. The character classes of the regular expressions and
  \<open>toLowerCase\<close> are the JavaScript ones restricted to that range.
  A value that may be \<open>undefined\<close> is an \<open>option\<close>; \<open>js_str\<close> is what a template literal
  or a property key makes of it.
\<close>

definition is_digit :: "char \<Rightarrow> bool" where
  "is_digit c = (let n = (of_char c :: nat) in 48 \<le> n \<and> n \<le> 57)"

definition is_word :: "char \<Rightarrow> bool" where
  "is_word c = (let n = (of_char c :: nat) in
     (48 \<le> n \<and> n \<le> 57) \<or> (65 \<le> n \<and> n \<le> 90) \<or> n = 95 \<or> (97 \<le> n \<and> n \<le> 122))"

definition is_space :: "char \<Rightarrow> bool" where
  "is_space c = (let n = (of_char c :: nat) in (9 \<le> n \<and> n \<le> 13) \<or> n = 32 \<or> n = 160)"

definition is_nonspace :: "char \<Rightarrow> bool" where
  "is_nonspace c = (if is_space c then False else True)"

definition is_dot :: "char \<Rightarrow> bool" where
  "is_dot c = (if c = CHR 0x0A then False else if c = CHR 0x0D then False else True)"

definition lower_char :: "char \<Rightarrow> char" where
  "lower_char c = (let n = (of_char c :: nat) in
     if (65 \<le> n \<and> n \<le> 90) \<or> (192 \<le> n \<and> n \<le> 222 \<and> n \<noteq> 215) then char_of (n + 32) else c)"

definition toLowerCase :: "string \<Rightarrow> string" where
  "toLowerCase s = map lower_char s"

definition js_str :: "string option \<Rightarrow> string" where
  "js_str v = (case v of None \<Rightarrow> ''undefined'' | Some s \<Rightarrow> s)"

definition truthy :: "string option \<Rightarrow> bool" where
  "truthy v = (case v of None \<Rightarrow> False | Some [] \<Rightarrow> False | Some (_ # _) \<Rightarrow> True)"

text \<open>\<open>text.split(d)\<close> for a one-character separator, and \<open>words.join(sep)\<close>.\<close>

fun split_str :: "char \<Rightarrow> string \<Rightarrow> string list" where
  "split_str d [] = [[]]"
| "split_str d (c # cs) =
     (if c = d then [] # split_str d cs
      else (case split_str d cs of [] \<Rightarrow> [[c]] | w # ws \<Rightarrow> (c # w) # ws))"

fun join_str :: "string \<Rightarrow> string list \<Rightarrow> string" where
  "join_str sep [] = []"
| "join_str sep [w] = w"
| "join_str sep (w # v # ws) = w @ sep @ join_str sep (v # ws)"

text \<open>\<open>word.indexOf(p) === 0\<close>.\<close>

definition starts_with :: "string \<Rightarrow> string \<Rightarrow> bool" where
  "starts_with p w = (take (length p) w = p)"

section \<open>Regular expressions\<close>

text \<open>
  The regular expressions of the source are values of \<open>regex\<close>, and \<open>ms\<close> is a backtracking
  matcher: from a state (captures so far, index in the subject, rest of the subject) it
  returns every way to match, in the order in which backtracking tries them, so the head of
  the list is the match that JavaScript reports. A greedy quantifier tries one more
  iteration before stopping, a lazy one stops first; an iteration that consumes nothing is
  given up, as in JavaScript. The fuel of an iteration is the length of the rest of the
  subject, which no run of consuming iterations exceeds.
\<close>

type_synonym caps = "nat \<Rightarrow> string option"

type_synonym mstate = "caps \<times> nat \<times> string"

datatype regex =
    Chr char
  | Cls "char \<Rightarrow> bool"
  | Seq regex regex
  | Alt regex regex
  | Opt regex
  | Star regex
  | Plus regex
  | LazyPlus regex
  | Grp nat regex
  | NotAhead regex
  | Bol
  | Eol
  | Eps

fun step :: "(char \<Rightarrow> bool) \<Rightarrow> mstate \<Rightarrow> mstate list" where
  "step p (cp, i, []) = []"
| "step p (cp, i, c # cs) = (if p c then [(cp, Suc i, cs)] else [])"

definition pos_of :: "mstate \<Rightarrow> nat" where
  "pos_of st = fst (snd st)"

definition rest_of :: "mstate \<Rightarrow> string" where
  "rest_of st = snd (snd st)"

primrec greedy :: "nat \<Rightarrow> (mstate \<Rightarrow> mstate list) \<Rightarrow> mstate \<Rightarrow> mstate list" where
  "greedy 0 m st = [st]"
| "greedy (Suc n) m st =
     concat (map (\<lambda>st'. if length (rest_of st') < length (rest_of st) then greedy n m st' else [])
                 (m st)) @ [st]"

primrec lazy :: "nat \<Rightarrow> (mstate \<Rightarrow> mstate list) \<Rightarrow> mstate \<Rightarrow> mstate list" where
  "lazy 0 m st = [st]"
| "lazy (Suc n) m st =
     st # concat (map (\<lambda>st'. if length (rest_of st') < length (rest_of st) then lazy n m st' else [])
                      (m st))"

primrec ms :: "regex \<Rightarrow> mstate \<Rightarrow> mstate list" where
  "ms (Chr c) st = step (\<lambda>x. x = c) st"
| "ms (Cls p) st = step p st"
| "ms (Seq a b) st = concat (map (ms b) (ms a st))"
| "ms (Alt a b) st = ms a st @ ms b st"
| "ms (Opt a) st = ms a st @ [st]"
| "ms (Star a) st = greedy (length (rest_of st)) (ms a) st"
| "ms (Plus a) st = concat (map (\<lambda>st'. greedy (length (rest_of st')) (ms a) st') (ms a st))"
| "ms (LazyPlus a) st = concat (map (\<lambda>st'. lazy (length (rest_of st')) (ms a) st') (ms a st))"
| "ms (Grp n a) st =
     map (\<lambda>(cp, j, s). (cp(n \<mapsto> take (j - pos_of st) (rest_of st)), j, s)) (ms a st)"
| "ms (NotAhead a) st = (case ms a st of [] \<Rightarrow> [st] | _ # _ \<Rightarrow> [])"
| "ms Bol st = (if pos_of st = 0 then [st] else [])"
| "ms Eol st = (case rest_of st of [] \<Rightarrow> [st] | _ # _ \<Rightarrow> [])"
| "ms Eps st = [st]"

text \<open>A run of literal characters, such as \<open>&amp;\<close> in \<open>/&amp;/\<close>.\<close>

definition lit :: "string \<Rightarrow> regex" where
  "lit s = foldr (\<lambda>c r. Seq (Chr c) r) s Eps"

text \<open>
  One attempt at index \<open>i\<close>, where \<open>s\<close> is the subject from \<open>i\<close> on: the captures and the
  length of the match.
\<close>

definition exec :: "regex \<Rightarrow> nat \<Rightarrow> string \<Rightarrow> (caps \<times> nat) option" where
  "exec r i s =
     (case ms r (\<lambda>_. None, i, s) of [] \<Rightarrow> None | (cp, j, _) # _ \<Rightarrow> Some (cp, j - i))"

text \<open>
  \<open>regex.exec(s)\<close> without the \<open>g\<close> flag: the leftmost index at which an attempt succeeds,
  with the matched text and the captures. \<open>regex.test(s)\<close> asks whether there is one.
\<close>

fun search :: "regex \<Rightarrow> nat \<Rightarrow> string \<Rightarrow> (nat \<times> string \<times> caps) option" where
  "search r i [] = (case exec r i [] of None \<Rightarrow> None | Some (cp, k) \<Rightarrow> Some (i, [], cp))"
| "search r i (c # cs) =
     (case exec r i (c # cs) of
        None \<Rightarrow> search r (Suc i) cs
      | Some (cp, k) \<Rightarrow> Some (i, take k (c # cs), cp))"

definition test :: "regex \<Rightarrow> string \<Rightarrow> bool" where
  "test r s = (case search r 0 s of None \<Rightarrow> False | Some _ \<Rightarrow> True)"

text \<open>
  \<open>s.replace(regex, ...)\<close> with the \<open>g\<close> flag first finds every match, left to right, each
  search starting where the last match ended (one character further after an empty match):
  \<open>pieces\<close> cuts the subject into the characters kept and the matches, each with its index.
\<close>

datatype piece = Keep char | Match nat string caps

fun pieces :: "regex \<Rightarrow> nat \<Rightarrow> string \<Rightarrow> piece list" where
  "pieces r i [] = (case exec r i [] of None \<Rightarrow> [] | Some (cp, k) \<Rightarrow> [Match i [] cp])"
| "pieces r i (c # cs) =
     (case exec r i (c # cs) of
        None \<Rightarrow> Keep c # pieces r (Suc i) cs
      | Some (cp, k) \<Rightarrow>
          if k = 0 then Match i [] cp # Keep c # pieces r (Suc i) cs
          else Match i (take k (c # cs)) cp # pieces r (i + k) (drop (k - 1) cs))"

text \<open>
  The replacement patterns of a replacement string (\<open>GetSubstitution\<close>): \<open>$$\<close>, \<open>$&\<close>,
  the text before and after the match, and \<open>$n\<close>, \<open>$nn\<close> for a group the expression has
  (\<open>m\<close> is the number of its groups); any other \<open>$\<close> stands for itself.
\<close>

definition digit_val :: "char \<Rightarrow> nat" where
  "digit_val c = of_char c - 48"

definition capture :: "caps \<Rightarrow> nat \<Rightarrow> string" where
  "capture cp n = (case cp n of None \<Rightarrow> [] | Some s \<Rightarrow> s)"

fun getSubstitution :: "string \<Rightarrow> string \<Rightarrow> string \<Rightarrow> caps \<Rightarrow> nat \<Rightarrow> string \<Rightarrow> string" where
  "getSubstitution mt bf af cp m [] = []"
| "getSubstitution mt bf af cp m [c] = [c]"
| "getSubstitution mt bf af cp m (c # d # r) =
     (if c \<noteq> CHR ''$'' then c # getSubstitution mt bf af cp m (d # r)
      else if d = CHR ''$'' then CHR ''$'' # getSubstitution mt bf af cp m r
      else if d = CHR ''&'' then mt @ getSubstitution mt bf af cp m r
      else if d = CHR 0x60 then bf @ getSubstitution mt bf af cp m r
      else if d = CHR 0x27 then af @ getSubstitution mt bf af cp m r
      else if is_digit d then
        (case r of
           [] \<Rightarrow>
             (if 1 \<le> digit_val d \<and> digit_val d \<le> m then capture cp (digit_val d)
              else [c, d])
         | e # r' \<Rightarrow>
             (if is_digit e \<and> 1 \<le> 10 * digit_val d + digit_val e
                 \<and> 10 * digit_val d + digit_val e \<le> m
              then capture cp (10 * digit_val d + digit_val e) @ getSubstitution mt bf af cp m r'
              else if 1 \<le> digit_val d \<and> digit_val d \<le> m
              then capture cp (digit_val d) @ getSubstitution mt bf af cp m (e # r')
              else c # d # getSubstitution mt bf af cp m (e # r')))
      else c # getSubstitution mt bf af cp m (d # r))"

text \<open>\<open>s.replace(/r/g, template)\<close> for an expression with \<open>m\<close> groups.\<close>

definition replace_str :: "regex \<Rightarrow> nat \<Rightarrow> string \<Rightarrow> string \<Rightarrow> string" where
  "replace_str r m template s =
     concat (map (\<lambda>p. case p of
                    Keep c \<Rightarrow> [c]
                  | Match i mt cp \<Rightarrow>
                      getSubstitution mt (take i s) (drop (i + length mt) s) cp m template)
                 (pieces r 0 s))"

text \<open>\<open>s.replace(/r/g, (match, p1, ...) => ...)\<close>: what the function returns is inserted as it is.\<close>

definition replace_fn :: "regex \<Rightarrow> (string \<Rightarrow> caps \<Rightarrow> string) \<Rightarrow> string \<Rightarrow> string" where
  "replace_fn r f s =
     concat (map (\<lambda>p. case p of Keep c \<Rightarrow> [c] | Match i mt cp \<Rightarrow> f mt cp) (pieces r 0 s))"

text \<open>\<open>s.replace(/r/, template)\<close> without the \<open>g\<close> flag: the leftmost match only.\<close>

definition replace_first :: "regex \<Rightarrow> nat \<Rightarrow> string \<Rightarrow> string \<Rightarrow> string" where
  "replace_first r m template s =
     (case search r 0 s of
        None \<Rightarrow> s
      | Some (i, mt, cp) \<Rightarrow>
          take i s
          @ getSubstitution mt (take i s) (drop (i + length mt) s) cp m template
          @ drop (i + length mt) s)"

text \<open>
  \<open>new RegExp(pattern)\<close> on a string of the program's data (a user name, the nick suffix).
  The model reads the patterns made of ordinary characters and \<open>.\<close> (any character but a
  line terminator), which covers the names of the workspace (letters, digits, \<open>.\<close>, \<open>-\<close>,
  \<open>_\<close>); a pattern with another syntax character of regular expressions is outside the
  model (\<open>None\<close>).
\<close>

definition syntax_chars :: "char list" where
  "syntax_chars = [CHR 0x5C, CHR ''^'', CHR ''$'', CHR ''*'', CHR ''+'', CHR ''?'', CHR ''('',
     CHR '')'', CHR ''['', CHR '']'', CHR ''{'', CHR ''}'', CHR ''|'']"

fun pattern_atoms :: "string \<Rightarrow> regex option" where
  "pattern_atoms [] = Some Eps"
| "pattern_atoms (c # cs) =
     (if c = CHR ''.'' then map_option (Seq (Cls is_dot)) (pattern_atoms cs)
      else if c \<in> set syntax_chars then None
      else map_option (Seq (Chr c)) (pattern_atoms cs))"

section \<open>Errors and effects\<close>

text \<open>
  What a function throws is a value of \<open>error\<close>. \<open>UnmodelledRegExp\<close> is not an exception of
  the program: it marks a pattern that \<open>pattern_atoms\<close> does not read.
\<close>

datatype error = TypeError | ReferenceError | ConfigurationError | UnmodelledRegExp

text \<open>
  What the bridge does to the two networks and to its own listener tables, in the order in
  which it does it. \<open>IrcSay\<close> is \<open>ircClient.say(channel, text)\<close>, \<open>IrcSend\<close> a raw command
  (\<open>ircClient.send\<close>), \<open>IrcOnce\<close> the registration of a one-shot listener,
  \<open>RtmSendMessage\<close> is \<open>slack.rtm.sendMessage(text, channel)\<close> and \<open>PostMessage\<close> is
  \<open>slack.web.chat.postMessage(channel, text, options)\<close>. A function that acts returns an
  \<open>outcome\<close>: the effects it performed and, if it threw, the exception that ended it.
\<close>

text \<open>
  The objects of the workspace client, with the fields that the bridge reads.
  \<open>chan_name\<close> is \<open>None\<close> for an object that has no \<open>name\<close>; \<open>initial_comment\<close> is the
  text of the comment object of a file, when it has one. A \<open>listener\<close> stands for the
  function that a handler registers for the next \<open>names\<close> or \<open>topic\<close> event of the legacy
  client, with the values it closes over; what it does when the event comes is a later
  step and is not modelled.
\<close>

record user =
  user_name :: string

record channel =
  chan_id :: string
  chan_name :: "string option"
  is_channel :: bool
  is_member :: bool
  is_group :: bool
  members :: "string list"

record file_info =
  permalink :: "string option"
  permalink_public :: "string option"
  initial_comment :: "string option"

record message =
  msg_channel :: string
  msg_user :: string
  msg_text :: string
  msg_subtype :: "string option"
  msg_file :: "file_info option"

record post_options =
  username :: string
  parse :: string
  icon_url :: "string option"

datatype listener =
    OnlineNames message "string option" string
  | TopicReply message
  | TopicSet message

datatype effect =
    IrcSay string string
  | IrcSend "string list"
  | IrcOnce string listener
  | RtmSendMessage string string
  | PostMessage string string post_options

type_synonym outcome = "effect list \<times> error option"

text \<open>
  The directory of the workspace client (\<open>slack.rtm.dataStore\<close>): each lookup returns
  \<open>undefined\<close> (\<open>None\<close>) for an id or a name it does not know.
\<close>

record dataStore =
  getChannelGroupOrDMById :: "string \<rightharpoonup> channel"
  getUserById :: "string \<rightharpoonup> user"
  getChannelById :: "string \<rightharpoonup> channel"
  getChannelOrGroupByName :: "string \<rightharpoonup> channel"

section \<open>helpers.js\<close>

text \<open>
  \<open>highlightUsername(user, text)\<close>. The expression is built from the name itself,
  \<open>new RegExp(`^${user}[,.:!?]?$`)\<close>, so the name is read as a pattern.
\<close>

definition userRegExp :: "string \<Rightarrow> regex option" where
  "userRegExp user =
     map_option (\<lambda>name. Seq Bol (Seq name (Seq (Opt (Cls (\<lambda>c. c \<in> set '',.:!?''))) Eol)))
       (pattern_atoms user)"

definition highlightUsername :: "string \<Rightarrow> string \<Rightarrow> error + string" where
  "highlightUsername user text =
     (case userRegExp user of
        None \<Rightarrow> Inl UnmodelledRegExp
      | Some re \<Rightarrow>
          Inr (join_str '' ''
                (map (\<lambda>word.
                        if starts_with (CHR ''@'' # user) word then word
                        else if test re word then CHR ''@'' # word
                        else word)
                     (split_str CHR '' '' text))))"

section \<open>The bot\<close>

text \<open>
  A shadow session (an entry of \<open>this.ircClients\<close>) and the fields of \<open>Bot\<close> that the
  functions below read. \<open>channelMapping\<close>, \<open>invertedMapping\<close> and \<open>ircClients\<close> are objects
  used as tables: lists of their own entries, key and value, looked up with \<open>map_of\<close>.
  \<open>avatarUrl\<close> is \<open>None\<close> where the field holds \<open>false\<close>. \<open>nickRegex\<close> is \<open>None\<close> where the
  expression is built from a suffix that \<open>pattern_atoms\<close> does not read.
\<close>

record ircClient =
  nick :: string
  slackName :: string

record bot =
  nickname :: string
  commandCharacters :: "string list"
  muteSlackbot :: bool
  nickSuffix :: string
  nickRegex :: "regex option"
  muteUsers_slack :: "string list"
  muteUsers_irc :: "string list"
  avatarUrl :: "string option"
  slackUsernameFormat :: string
  channelMapping :: "(string \<times> string) list"
  invertedMapping :: "(string \<times> string) list"
  ircClients :: "(string \<times> ircClient) list"

subsection \<open>The constructor\<close>

text \<open>
  The configuration entry. A field that may be missing is an \<open>option\<close>;
  \<open>options.avatarUrl\<close> may also be \<open>false\<close>. The fields that only \<open>connect\<close> and the
  listeners read (\<open>ircOptions\<close>, \<open>statusChanges\<close>, \<open>ircStatusNotices\<close>, \<open>ircTimeout\<close>,
  \<open>autoSendCommands\<close> and the like) are left out.
\<close>

datatype avatar_option = AvatarFalse | AvatarUnset | AvatarUrl string

record options =
  opt_server :: "string option"
  opt_nickname :: "string option"
  opt_channelMapping :: "(string \<times> string) list option"
  opt_token :: "string option"
  opt_commandCharacters :: "string list option"
  opt_muteSlackbot :: bool
  opt_userNickSuffix :: "string option"
  opt_muteUsers_slack :: "string list option"
  opt_muteUsers_irc :: "string list option"
  opt_avatarUrl :: avatar_option
  opt_slackUsernameFormat :: "string option"

text \<open>\<open>new RegExp(`@?(\\S+${this.nickSuffix}\\d?)`, 'g')\<close>.\<close>

definition mkNickRegex :: "string \<Rightarrow> regex option" where
  "mkNickRegex suffix =
     map_option (\<lambda>sfx. Seq (Opt (Chr CHR ''@''))
                        (Grp 1 (Seq (Plus (Cls is_nonspace)) (Seq sfx (Opt (Cls is_digit))))))
       (pattern_atoms suffix)"

text \<open>\<open>ircChan.split(' ')[0].toLowerCase()\<close>; \<open>split\<close> returns at least one part.\<close>

definition strip_password :: "string \<Rightarrow> string" where
  "strip_password ircChan =
     toLowerCase (case split_str CHR '' '' ircChan of [] \<Rightarrow> [] | part # _ \<Rightarrow> part)"



definition js_set :: "string \<Rightarrow> 'a \<Rightarrow> (string \<times> 'a) list \<Rightarrow> (string \<times> 'a) list" where
  "js_set key val obj = (if key = ''__proto__'' then obj else AList.update key val obj)"


definition digits_val :: "string \<Rightarrow> int" where
  "digits_val key = foldl (\<lambda>n c. 10 * n + int (digit_val c)) 0 key"

definition is_array_index :: "string \<Rightarrow> bool" where
  "is_array_index key =
     (case key of
        [] \<Rightarrow> False
      | c # cs \<Rightarrow> list_all is_digit key \<and> (if c = CHR ''0'' then cs = [] else True)
                  \<and> digits_val key < 4294967295)"

definition js_entries :: "(string \<times> 'a) list \<Rightarrow> (string \<times> 'a) list" where
  "js_entries obj =
     sort_key (\<lambda>entry. digits_val (fst entry)) (filter (\<lambda>entry. is_array_index (fst entry)) obj)
     @ filter (\<lambda>entry. if is_array_index (fst entry) then False else True) obj"

text \<open>
  \<open>_.forOwn(options.channelMapping, (ircChan, slackChan) => { this.channelMapping[slackChan] = ... })\<close>
  and \<open>_.invert(this.channelMapping)\<close>, which assigns \<open>result[value] = key\<close> for each own
  entry. \<open>options.channelMapping\<close> is given by its own entries in the order in which they
  were added (an object read from JSON can hold the own key \<open>__proto__\<close>).
\<close>

definition build_channelMapping :: "(string \<times> string) list \<Rightarrow> (string \<times> string) list" where
  "build_channelMapping cm =
     fold (\<lambda>(slackChan, ircChan) table. js_set slackChan (strip_password ircChan) table)
          (js_entries cm) []"

definition invert :: "(string \<times> string) list \<Rightarrow> (string \<times> string) list" where
  "invert obj = fold (\<lambda>(key, val) result. js_set val key result) (js_entries obj) []"

text \<open>
  \<open>validateChannelMapping\<close> (\<open>./validators\<close>) is not among the sources: the constructor
  takes it as a parameter, \<open>False\<close> where it throws. The constructor leaves
  \<open>this.ircClients\<close> unset; \<open>_.keys\<close> of an unset table is empty, which is what the empty
  list gives in every function below. Where the nick suffix is a pattern that the model
  does not read, \<open>new RegExp\<close> either builds an expression outside the model or throws a
  \<open>SyntaxError\<close>; the model returns the bot with \<open>nickRegex = None\<close> in both cases, so
  what holds of every bot it returns holds of every bot that the code constructs.
\<close>

definition Bot_constructor :: "((string \<times> string) list \<Rightarrow> bool) \<Rightarrow> options \<Rightarrow> error + bot" where
  "Bot_constructor validateChannelMapping opts =
     (if truthy (opt_server opts) \<and> truthy (opt_nickname opts) \<and> truthy (opt_token opts) then
        (case opt_channelMapping opts of
           None \<Rightarrow> Inl ConfigurationError
         | Some cm \<Rightarrow>
             if validateChannelMapping cm then
               (let suffix = (if truthy (opt_userNickSuffix opts)
                              then js_str (opt_userNickSuffix opts) else ''-sl'')
                in Inr \<lparr> nickname = js_str (opt_nickname opts),
                       commandCharacters =
                         (case opt_commandCharacters opts of None \<Rightarrow> [] | Some cs \<Rightarrow> cs),
                       muteSlackbot = opt_muteSlackbot opts,
                       nickSuffix = suffix,
                       nickRegex = mkNickRegex suffix,
                       muteUsers_slack =
                         (case opt_muteUsers_slack opts of None \<Rightarrow> [] | Some us \<Rightarrow> us),
                       muteUsers_irc =
                         (case opt_muteUsers_irc opts of None \<Rightarrow> [] | Some us \<Rightarrow> us),
                       avatarUrl =
                         (case opt_avatarUrl opts of
                            AvatarFalse \<Rightarrow> None
                          | AvatarUnset \<Rightarrow> Some ''http://api.adorable.io/avatars/48/$username.png''
                          | AvatarUrl url \<Rightarrow>
                              Some (if url = [] then ''http://api.adorable.io/avatars/48/$username.png''
                                    else url)),
                       slackUsernameFormat =
                         (if truthy (opt_slackUsernameFormat opts)
                          then js_str (opt_slackUsernameFormat opts) else ''$username (IRC)''),
                       channelMapping = build_channelMapping cm,
                       invertedMapping = invert (build_channelMapping cm),
                       ircClients = [] \<rparr>)
             else Inl ConfigurationError)
      else Inl ConfigurationError)"

subsection \<open>Text from the workspace to the legacy network\<close>

text \<open>A sequence of parts, so that an expression reads as it is written in the source.\<close>

definition seq :: "regex list \<Rightarrow> regex" where
  "seq rs = foldr Seq rs Eps"

text \<open>
  \<open>ircNick(slackName)\<close>, with \<open>SERVER_NICKLEN = 16\<close>; \<open>substr\<close> with a negative length is
  empty, as \<open>take\<close> is when the suffix is longer than 16.
\<close>

definition ircNick :: "bot \<Rightarrow> string \<Rightarrow> string" where
  "ircNick b name =
     take (16 - length (nickSuffix b)) (replace_str (Chr CHR ''.'') 0 ''-'' name)
     @ nickSuffix b"

definition currentShadowNicks :: "bot \<Rightarrow> string list" where
  "currentShadowNicks b = map (\<lambda>entry. nick (snd entry)) (ircClients b)"

text \<open>
  A replacement function that may throw: the functions are called match by match, and the
  first exception ends the replacement.
\<close>

fun replace_try :: "(string \<Rightarrow> caps \<Rightarrow> error + string) \<Rightarrow> piece list \<Rightarrow> error + string" where
  "replace_try f [] = Inr []"
| "replace_try f (Keep c # ps) =
     (case replace_try f ps of Inl e \<Rightarrow> Inl e | Inr t \<Rightarrow> Inr (c # t))"
| "replace_try f (Match i mt cp # ps) =
     (case f mt cp of
        Inl e \<Rightarrow> Inl e
      | Inr u \<Rightarrow> (case replace_try f ps of Inl e \<Rightarrow> Inl e | Inr t \<Rightarrow> Inr (u @ t)))"

text \<open>
  The expressions of \<open>parseText\<close>: \<open>/<#(C\w+)\|?(\w+)?>/g\<close>, \<open>/<@(U\w+)\|?(\w+)?>/g\<close>,
  \<open>/<(?!!)([^|]+?)>/g\<close>, \<open>/<!(\w+)\|?(\w+)?>/g\<close>, \<open>/:(\w+):/g\<close>, \<open>/@(\S+)/g\<close>
  (\<open>SLACK_REGEX\<close>) and \<open>/<.+?\|(.+?)>/g\<close>.
\<close>

definition channel_ref :: regex where
  "channel_ref = seq [lit ''<#'', Grp 1 (seq [Chr CHR ''C'', Plus (Cls is_word)]),
     Opt (Chr CHR ''|''), Opt (Grp 2 (Plus (Cls is_word))), Chr CHR ''>'']"

definition user_ref :: regex where
  "user_ref = seq [lit ''<@'', Grp 1 (seq [Chr CHR ''U'', Plus (Cls is_word)]),
     Opt (Chr CHR ''|''), Opt (Grp 2 (Plus (Cls is_word))), Chr CHR ''>'']"

definition bare_link :: regex where
  "bare_link = seq [Chr CHR ''<'', NotAhead (Chr CHR ''!''),
     Grp 1 (LazyPlus (Cls (\<lambda>c. c \<noteq> CHR ''|''))), Chr CHR ''>'']"

definition command_ref :: regex where
  "command_ref = seq [lit ''<!'', Grp 1 (Plus (Cls is_word)),
     Opt (Chr CHR ''|''), Opt (Grp 2 (Plus (Cls is_word))), Chr CHR ''>'']"

definition emoji_code :: regex where
  "emoji_code = seq [Chr CHR '':'', Grp 1 (Plus (Cls is_word)), Chr CHR '':'']"

definition SLACK_REGEX :: regex where
  "SLACK_REGEX = seq [Chr CHR ''@'', Grp 1 (Plus (Cls is_nonspace))]"

definition labelled_link :: regex where
  "labelled_link = seq [Chr CHR ''<'', LazyPlus (Cls is_dot), Chr CHR ''|'',
     Grp 1 (LazyPlus (Cls is_dot)), Chr CHR ''>'']"

text \<open>
  \<open>parseText(text)\<close>. The table of emoji (\<open>../assets/emoji.json\<close>) is not among the sources
  and is a parameter. In the two functions that resolve a reference,
  \<open>const { name } = dataStore.getChannelById(channelId)\<close> throws a \<open>TypeError\<close> when the
  lookup returns \<open>undefined\<close>.
\<close>

definition parseText :: "(string \<rightharpoonup> string) \<Rightarrow> bot \<Rightarrow> dataStore \<Rightarrow> string \<Rightarrow> error + string" where
  "parseText emojis b ds text =
     (let t1 = replace_str (Alt (Chr CHR 0x0A) (Alt (lit [CHR 0x0D, CHR 0x0A]) (Chr CHR 0x0D)))
                 0 '' '' text;
          t2 = replace_str (lit ''&amp;'') 0 ''&'' t1;
          t3 = replace_str (lit ''&lt;'') 0 ''<'' t2;
          t4 = replace_str (lit ''&gt;'') 0 ''>'' t3;
          t5 = replace_str (lit ''<!channel>'') 0 ''@channel'' t4;
          t6 = replace_str (lit ''<!group>'') 0 ''@group'' t5;
          t7 = replace_str (lit ''<!everyone>'') 0 ''@everyone'' t6
      in case replace_try
                (\<lambda>match cp. case getChannelById ds (capture cp 1) of
                     None \<Rightarrow> Inl TypeError
                   | Some ch \<Rightarrow>
                       Inr (if truthy (cp 2) then capture cp 2
                            else CHR ''#'' # js_str (chan_name ch)))
                (pieces channel_ref 0 t7) of
           Inl e \<Rightarrow> Inl e
         | Inr t8 \<Rightarrow>
             (case replace_try
                     (\<lambda>match cp. case getUserById ds (capture cp 1) of
                          None \<Rightarrow> Inl TypeError
                        | Some u \<Rightarrow>
                            Inr (if truthy (cp 2) then capture cp 2
                                 else CHR ''@'' # user_name u))
                     (pieces user_ref 0 t8) of
                Inl e \<Rightarrow> Inl e
              | Inr t9 \<Rightarrow>
                  (let t10 = replace_fn bare_link (\<lambda>match cp. capture cp 1) t9;
                       t11 = replace_fn command_ref
                               (\<lambda>match cp. ''<'' @ (if truthy (cp 2) then capture cp 2
                                                    else capture cp 1) @ ''>'') t10;
                       t12 = replace_fn emoji_code
                               (\<lambda>match cp. case emojis (capture cp 1) of
                                    Some glyph \<Rightarrow> glyph
                                  | None \<Rightarrow> match) t11;
                       t13 = replace_fn SLACK_REGEX
                               (\<lambda>match cp. if ircNick b (capture cp 1) \<in> set (currentShadowNicks b)
                                           then ircNick b (capture cp 1) else match) t12
                   in Inr (replace_fn labelled_link (\<lambda>match cp. capture cp 1) t13))))"

text \<open>\<open>isCommandMessage(message)\<close>: \<open>this.commandCharacters.indexOf(message[0]) !== -1\<close>.\<close>

definition isCommandMessage :: "bot \<Rightarrow> string \<Rightarrow> bool" where
  "isCommandMessage b text =
     (case text of [] \<Rightarrow> False | c # _ \<Rightarrow> [c] \<in> set (commandCharacters b))"

subsection \<open>Commands\<close>

text \<open>
  \<open>channel.is_channel ? `#${channel.name}` : channel.name\<close>, as the key of a lookup in
  \<open>channelMapping\<close>, and \<open>getIRCChannel(slackChannelID)\<close>, which reads a field of the
  channel without checking that the directory knows it.
\<close>

definition channelName_of :: "channel \<Rightarrow> string" where
  "channelName_of ch =
     (if is_channel ch then CHR ''#'' # js_str (chan_name ch) else js_str (chan_name ch))"

definition getIRCChannel :: "bot \<Rightarrow> dataStore \<Rightarrow> string \<Rightarrow> error + string option" where
  "getIRCChannel b ds slackChannelID =
     (case getChannelGroupOrDMById ds slackChannelID of
        None \<Rightarrow> Inl TypeError
      | Some ch \<Rightarrow> Inr (map_of (channelMapping b) (channelName_of ch)))"

text \<open>
  The handlers of helpers.js. Each registers a one-shot listener and sends a raw command;
  the listener runs when the legacy server answers, which is a later event.
  \<open>setNewTopic\<close> calls \<open>argument.split(\" \")\<close> before anything else it does with the
  channel, which throws when the command has no argument.
\<close>

definition onlineIRCUsers :: "bot \<Rightarrow> dataStore \<Rightarrow> message \<Rightarrow> string option \<Rightarrow> outcome" where
  "onlineIRCUsers b ds msg query =
     (case getIRCChannel b ds (msg_channel msg) of
        Inl e \<Rightarrow> ([], Some e)
      | Inr None \<Rightarrow> ([], None)
      | Inr (Some ircChannel) \<Rightarrow>
          ([IrcOnce ''names'' (OnlineNames msg query ircChannel),
            IrcSend [''NAMES'', ircChannel]], None))"

definition ircTopic :: "bot \<Rightarrow> dataStore \<Rightarrow> message \<Rightarrow> outcome" where
  "ircTopic b ds msg =
     (case getIRCChannel b ds (msg_channel msg) of
        Inl e \<Rightarrow> ([], Some e)
      | Inr None \<Rightarrow> ([], None)
      | Inr (Some ircChannel) \<Rightarrow>
          ([IrcOnce ''topic'' (TopicReply msg), IrcSend [''TOPIC'', ircChannel]], None))"

definition setNewTopic :: "bot \<Rightarrow> dataStore \<Rightarrow> message \<Rightarrow> string option \<Rightarrow> string option \<Rightarrow> outcome" where
  "setNewTopic b ds msg argument data =
     (case getIRCChannel b ds (msg_channel msg) of
        Inl e \<Rightarrow> ([], Some e)
      | Inr None \<Rightarrow> ([], None)
      | Inr (Some ircChannel) \<Rightarrow>
          (case argument of
             None \<Rightarrow> ([], Some TypeError)
           | Some arg \<Rightarrow>
               ([IrcOnce ''topic'' (TopicSet msg),
                 IrcSend [''TOPIC'', ircChannel, arg @ '' '' @ js_str data]], None)))"

definition help_reply :: string where
  "help_reply =
     replicate 3 (CHR 0x60) @ ''.online [, query]'' @ replicate 3 (CHR 0x60) @ '' ''
     @ ''Sends a list of all names in the IRC channel as a DM. ''
     @ ''If query parameter is provided, sends a list of partially matching nicks and displays ''
     @ ''them in the Slack channel.'' @ [CHR 0x0A]
     @ replicate 3 (CHR 0x60) @ ''.irctopic'' @ replicate 3 (CHR 0x60) @ '' ''
     @ ''Sends the IRC channel topic to the Slack channel.''
     @ replicate 3 (CHR 0x60) @ ''.topic [new topic]'' @ replicate 3 (CHR 0x60) @ '' ''
     @ ''Sets the topic in the IRC Channel.''
     @ replicate 3 (CHR 0x60) @ ''.help'' @ replicate 3 (CHR 0x60) @ '' ''
     @ ''Displays this message.''"

definition commandHelp :: "message \<Rightarrow> outcome" where
  "commandHelp msg = ([RtmSendMessage (''HELP: '' @ help_reply) (msg_channel msg)], None)"

text \<open>
  \<open>processCommandMessage(message)\<close>, with the expression
  \<open>new RegExp('^(\\w+)\\s?(\\S+)?\\s?(.*)$', 'i')\<close> (the flag changes nothing: the pattern has
  no letter). The case \<open>msg\<close> calls \<open>priv\<close>, a name that nothing binds: its declaration is
  commented out and bot.js does not import \<open>privMessage\<close>, so evaluating the call throws
  a \<open>ReferenceError\<close>.
\<close>

definition command_regex :: regex where
  "command_regex = seq [Bol, Grp 1 (Plus (Cls is_word)), Opt (Cls is_space),
     Opt (Grp 2 (Plus (Cls is_nonspace))), Opt (Cls is_space), Grp 3 (Star (Cls is_dot)), Eol]"

definition processCommandMessage :: "bot \<Rightarrow> dataStore \<Rightarrow> message \<Rightarrow> outcome" where
  "processCommandMessage b ds msg =
     (case search command_regex 0 (drop 1 (msg_text msg)) of
        None \<Rightarrow> ([], None)
      | Some (i, mt, cp) \<Rightarrow>
          if cp 1 = Some ''online'' then onlineIRCUsers b ds msg (cp 2)
          else if cp 1 = Some ''irctopic'' then ircTopic b ds msg
          else if cp 1 = Some ''help'' then commandHelp msg
          else if cp 1 = Some ''topic'' then setNewTopic b ds msg (cp 2) (cp 3)
          else if cp 1 = Some ''msg'' then
            (if truthy (cp 3) then ([], Some ReferenceError)
             else ([RtmSendMessage ''You must supply a message.'' (msg_channel msg)], None))
          else ([], None))"

subsection \<open>Relaying a workspace message\<close>

text \<open>
  \<open>sendToIRC(message)\<close>. After \<open>processCommandMessage\<close> has returned, the notice and then
  the parsed text are said to the mapped channel; an exception in it ends the function
  before either.
\<close>

definition sendToIRC :: "(string \<rightharpoonup> string) \<Rightarrow> bot \<Rightarrow> dataStore \<Rightarrow> message \<Rightarrow> outcome" where
  "sendToIRC emojis b ds msg =
     (case getChannelGroupOrDMById ds (msg_channel msg) of
        None \<Rightarrow> ([], None)
      | Some ch \<Rightarrow>
          if muteSlackbot b \<and> msg_user msg = ''USLACKBOT'' then ([], None)
          else
            (case getUserById ds (msg_user msg) of
               None \<Rightarrow> ([], Some TypeError)
             | Some u \<Rightarrow>
                 if user_name u \<in> set (muteUsers_slack b) then ([], None)
                 else
                   (case map_of (channelMapping b) (channelName_of ch) of
                      None \<Rightarrow> ([], None)
                    | Some [] \<Rightarrow> ([], None)
                    | Some (x # xs) \<Rightarrow>
                        (case parseText emojis b ds (msg_text msg) of
                           Inl e \<Rightarrow> ([], Some e)
                         | Inr text \<Rightarrow>
                             if isCommandMessage b text then
                               (case processCommandMessage b ds msg of
                                  (es, Some e) \<Rightarrow> (es, Some e)
                                | (es, None) \<Rightarrow>
                                    (es @ [IrcSay (x # xs)
                                               (''Command sent from Slack by '' @ user_name u @ '':''),
                                             IrcSay (x # xs) text], None))
                             else if truthy (msg_subtype msg) then
                               (if msg_subtype msg = Some ''file_share'' then
                                  (case msg_file msg of
                                     None \<Rightarrow> ([], Some TypeError)
                                   | Some f \<Rightarrow>
                                       ([IrcSay (x # xs)
                                           (''<'' @ user_name u @ ''> File uploaded ''
                                            @ js_str (permalink f) @ '' / ''
                                            @ js_str (permalink_public f)
                                            @ (case initial_comment f of
                                                 None \<Rightarrow> []
                                               | Some comment \<Rightarrow> '' - '' @ comment))],
                                        None))
                                else if msg_subtype msg = Some ''me_message'' then
                                  ([IrcSay (x # xs) (''Action: '' @ user_name u @ '' '' @ text)], None)
                                else ([IrcSay (x # xs) text], None))
                             else ([IrcSay (x # xs) (''<'' @ user_name u @ ''> '' @ text)], None)))))"

subsection \<open>Relaying a legacy message\<close>

text \<open>
  \<open>currentChannelUsernames(slackChannel)\<close>: \<open>dataStore.getUserById(member).name\<close> throws
  for a member that the directory does not know.
\<close>

fun usernames_of :: "dataStore \<Rightarrow> string list \<Rightarrow> error + string list" where
  "usernames_of ds [] = Inr []"
| "usernames_of ds (member # rest) =
     (case getUserById ds member of
        None \<Rightarrow> Inl TypeError
      | Some u \<Rightarrow>
          (case usernames_of ds rest of Inl e \<Rightarrow> Inl e | Inr names \<Rightarrow> Inr (user_name u # names)))"

definition currentChannelUsernames :: "dataStore \<Rightarrow> channel \<Rightarrow> error + string list" where
  "currentChannelUsernames ds slackChannel = usernames_of ds (members slackChannel)"

text \<open>\<open>mapSlackUsers(slackChannel, text)\<close>: \<open>reduce\<close> over the names, from \<open>text\<close>.\<close>

fun reduce_highlight :: "string list \<Rightarrow> string \<Rightarrow> error + string" where
  "reduce_highlight [] current = Inr current"
| "reduce_highlight (name # names) current =
     (case highlightUsername name current of
        Inl e \<Rightarrow> Inl e
      | Inr t \<Rightarrow> reduce_highlight names t)"

definition mapSlackUsers :: "dataStore \<Rightarrow> channel \<Rightarrow> string \<Rightarrow> error + string" where
  "mapSlackUsers ds slackChannel text =
     (case currentChannelUsernames ds slackChannel of
        Inl e \<Rightarrow> Inl e
      | Inr names \<Rightarrow> reduce_highlight names text)"

text \<open>
  \<open>replaceUsernames(text)\<close>: the first session whose nick is the captured one. With an
  expression that the model does not read, the result is outside the model.
\<close>

definition replaceUsernames :: "bot \<Rightarrow> string \<Rightarrow> error + string" where
  "replaceUsernames b text =
     (case nickRegex b of
        None \<Rightarrow> Inl UnmodelledRegExp
      | Some re \<Rightarrow>
          Inr (replace_fn re
                 (\<lambda>match cp. case List.find (\<lambda>client. nick client = capture cp 1)
                                      (map snd (ircClients b)) of
                      Some client \<Rightarrow> slackName client
                    | None \<Rightarrow> match)
                 text))"

text \<open>
  \<open>convertFormatting(text)\<close>: \<open>/\x03\d{2}(.+?)\x0F/g\<close> to a code span, then
  \<open>/\x02(.+?)\x0F/g\<close> to emphasis.
\<close>

definition color_run :: regex where
  "color_run = seq [Chr CHR 0x03, Cls is_digit, Cls is_digit, Grp 1 (LazyPlus (Cls is_dot)),
     Chr CHR 0x0F]"

definition bold_run :: regex where
  "bold_run = seq [Chr CHR 0x02, Grp 1 (LazyPlus (Cls is_dot)), Chr CHR 0x0F]"

definition convertFormatting :: "string \<Rightarrow> string" where
  "convertFormatting text =
     replace_str bold_run 1 ''*$1*''
       (replace_str color_run 1 [CHR 0x60, CHR ''$'', CHR ''1'', CHR 0x60] text)"

text \<open>\<open>sendToSlack(author, channel, text)\<close>.\<close>

definition sendToSlack :: "bot \<Rightarrow> dataStore \<Rightarrow> string \<Rightarrow> string \<Rightarrow> string \<Rightarrow> outcome" where
  "sendToSlack b ds author chan text =
     (case map_of (invertedMapping b) (toLowerCase chan) of
        None \<Rightarrow> ([], None)
      | Some [] \<Rightarrow> ([], None)
      | Some (x # xs) \<Rightarrow>
          (case getChannelOrGroupByName ds (replace_first (seq [Bol, Chr CHR ''#'']) 0 [] (x # xs)) of
             None \<Rightarrow> ([], None)
           | Some slackChannel \<Rightarrow>
               if is_member slackChannel \<or> is_group slackChannel then
                 (if author \<in> set (muteUsers_irc b) then ([], None)
                  else
                    (case currentChannelUsernames ds slackChannel of
                       Inl e \<Rightarrow> ([], Some e)
                     | Inr names \<Rightarrow>
                         if author \<in> set (currentShadowNicks b) then ([], None)
                         else
                           (case replaceUsernames b text of
                              Inl e \<Rightarrow> ([], Some e)
                            | Inr replacedText \<Rightarrow>
                                (case mapSlackUsers ds slackChannel
                                        (convertFormatting replacedText) of
                                   Inl e \<Rightarrow> ([], Some e)
                                 | Inr mappedText \<Rightarrow>
                                     ([PostMessage (chan_id slackChannel) mappedText
                                         \<lparr> username = replace_str (lit ''$username'') 0 author
                                                        (slackUsernameFormat b),
                                           parse = ''full'',
                                           icon_url =
                                             (if author \<noteq> nickname b \<and> truthy (avatarUrl b)
                                              then Some (replace_str (lit ''$username'') 0 author
                                                           (js_str (avatarUrl b)))
                                              else None) \<rparr>], None)))))
               else ([], None)))"

section \<open>Concrete inputs\<close>

text \<open>
  A bridge with the default nick suffix, one mapped channel, the command character \<open>.\<close>,
  one muted user on each side, and a directory that knows one channel and two users.
\<close>

definition sl_regex :: regex where
  "sl_regex = Seq (Opt (Chr CHR ''@''))
     (Grp 1 (Seq (Plus (Cls is_nonspace))
        (Seq (Seq (Chr CHR ''-'') (Seq (Chr CHR ''s'') (Seq (Chr CHR ''l'') Eps)))
             (Opt (Cls is_digit)))))"

definition opts0 :: options where
  "opts0 = \<lparr> opt_server = Some ''irc.example.org'', opt_nickname = Some ''bridge'',
     opt_channelMapping = Some [(''#general'', ''#General-IRC secret'')],
     opt_token = Some ''xoxb'', opt_commandCharacters = Some [''.''],
     opt_muteSlackbot = False, opt_userNickSuffix = None,
     opt_muteUsers_slack = Some [''mallory''], opt_muteUsers_irc = Some [''spammer''],
     opt_avatarUrl = AvatarUnset, opt_slackUsernameFormat = None \<rparr>"

definition bot0 :: bot where
  "bot0 = \<lparr> nickname = ''bridge'', commandCharacters = [''.''], muteSlackbot = False,
     nickSuffix = ''-sl'', nickRegex = Some sl_regex, muteUsers_slack = [''mallory''],
     muteUsers_irc = [''spammer''],
     avatarUrl = Some ''http://api.adorable.io/avatars/48/$username.png'',
     slackUsernameFormat = ''$username (IRC)'',
     channelMapping = [(''#general'', ''#general-irc'')],
     invertedMapping = [(''#general-irc'', ''#general'')],
     ircClients = [] \<rparr>"

definition bot1 :: bot where
  "bot1 = bot0 \<lparr> ircClients := [(''U1'', \<lparr> nick = ''alice-sl'', slackName = ''alice'' \<rparr>)] \<rparr>"

definition general :: channel where
  "general = \<lparr> chan_id = ''C1'', chan_name = Some ''general'', is_channel = True,
     is_member = True, is_group = False, members = [''U1''] \<rparr>"

definition ds0 :: dataStore where
  "ds0 = \<lparr> getChannelGroupOrDMById = [''C1'' \<mapsto> general],
            getUserById = [''U1'' \<mapsto> \<lparr> user_name = ''alice'' \<rparr>,
                           ''U2'' \<mapsto> \<lparr> user_name = ''mallory'' \<rparr>],
            getChannelById = [''C1'' \<mapsto> general],
            getChannelOrGroupByName = [''general'' \<mapsto> general] \<rparr>"





definition msg0 :: "string \<Rightarrow> string \<Rightarrow> message" where
  "msg0 u t = \<lparr> msg_channel = ''C1'', msg_user = u, msg_text = t, msg_subtype = None,
                msg_file = None \<rparr>"

section \<open>What a match needs of the subject\<close>

text \<open>
  A match only consumes: the rest of the subject after any way to match holds no character
  that the rest before it did not hold. So an expression that ends with a character the
  subject does not contain matches nowhere, and neither does one that starts with such a
  character.
\<close>

lemma step_rest: "st' \<in> set (step p st) \<Longrightarrow> set (rest_of st') \<subseteq> set (rest_of st)"
  by (cases "(p, st)" rule: step.cases) (auto simp: rest_of_def split: if_splits)

lemma greedy_rest:
  assumes m: "\<And>st st'. st' \<in> set (m st) \<Longrightarrow> set (rest_of st') \<subseteq> set (rest_of st)"
  shows "st' \<in> set (greedy n m st) \<Longrightarrow> set (rest_of st') \<subseteq> set (rest_of st)"
proof (induction n arbitrary: st)
  case 0
  then show ?case by simp
next
  case (Suc n)
  from Suc.prems consider "st' = st"
    | st1 where "st1 \<in> set (m st)" "st' \<in> set (greedy n m st1)"
    by (auto split: if_splits)
  then show ?case
  proof cases
    case 1
    then show ?thesis by simp
  next
    case 2
    from Suc.IH [OF 2(2)] m [OF 2(1)] show ?thesis by blast
  qed
qed

lemma lazy_rest:
  assumes m: "\<And>st st'. st' \<in> set (m st) \<Longrightarrow> set (rest_of st') \<subseteq> set (rest_of st)"
  shows "st' \<in> set (lazy n m st) \<Longrightarrow> set (rest_of st') \<subseteq> set (rest_of st)"
proof (induction n arbitrary: st)
  case 0
  then show ?case by simp
next
  case (Suc n)
  from Suc.prems consider "st' = st"
    | st1 where "st1 \<in> set (m st)" "st' \<in> set (lazy n m st1)"
    by (auto split: if_splits)
  then show ?case
  proof cases
    case 1
    then show ?thesis by simp
  next
    case 2
    from Suc.IH [OF 2(2)] m [OF 2(1)] show ?thesis by blast
  qed
qed

lemma ms_rest: "st' \<in> set (ms r st) \<Longrightarrow> set (rest_of st') \<subseteq> set (rest_of st)"
proof (induction r arbitrary: st st')
  case (Chr c)
  then show ?case using step_rest by simp
next
  case (Cls p)
  then show ?case using step_rest by simp
next
  case (Seq a b)
  from Seq.prems obtain st1 where "st1 \<in> set (ms a st)" "st' \<in> set (ms b st1)" by auto
  with Seq.IH show ?case by blast
next
  case (Alt a b)
  from Alt.prems have "st' \<in> set (ms a st) \<or> st' \<in> set (ms b st)" by simp
  with Alt.IH show ?case by blast
next
  case (Opt a)
  from Opt.prems have "st' \<in> set (ms a st) \<or> st' = st" by auto
  with Opt.IH show ?case by blast
next
  case (Star a)
  then show ?case using greedy_rest [of "ms a"] by simp
next
  case (Plus a)
  then obtain st1 where "st1 \<in> set (ms a st)"
    "st' \<in> set (greedy (length (rest_of st1)) (ms a) st1)" by auto
  with Plus.IH greedy_rest [of "ms a"] show ?case by blast
next
  case (LazyPlus a)
  then obtain st1 where "st1 \<in> set (ms a st)"
    "st' \<in> set (lazy (length (rest_of st1)) (ms a) st1)" by auto
  with LazyPlus.IH lazy_rest [of "ms a"] show ?case by blast
next
  case (Grp n a)
  then obtain st1 where "st1 \<in> set (ms a st)" "rest_of st' = rest_of st1"
    by (auto simp: rest_of_def)
  with Grp.IH show ?case by auto
next
  case (NotAhead a)
  then show ?case by (auto split: list.splits)
next
  case Bol
  then show ?case by (auto split: if_splits)
next
  case Eol
  then show ?case by (auto split: list.splits)
next
  case Eps
  then show ?case by simp
qed

lemma ms_Chr_absent: "c \<notin> set (rest_of st) \<Longrightarrow> ms (Chr c) st = []"
proof -
  obtain cp i s where st: "st = (cp, i, s)" by (cases st) auto
  assume "c \<notin> set (rest_of st)"
  with st show ?thesis by (cases s) (auto simp: rest_of_def)
qed

lemma ms_Seq_left: "ms a st = [] \<Longrightarrow> ms (Seq a b) st = []"
  by simp

lemma ms_Seq_right:
  assumes "\<And>st. c \<notin> set (rest_of st) \<Longrightarrow> ms b st = []" and "c \<notin> set (rest_of st)"
  shows "ms (Seq a b) st = []"
proof -
  have "ms b st1 = []" if "st1 \<in> set (ms a st)" for st1
    using ms_rest [OF that] assms by blast
  then show ?thesis by simp
qed

lemma exec_None: "ms r (\<lambda>_. None, i, s) = [] \<Longrightarrow> exec r i s = None"
  by (simp add: exec_def)

lemma pieces_Keep:
  "(\<And>i t. set t \<subseteq> set s \<Longrightarrow> exec r i t = None) \<Longrightarrow> pieces r i s = map Keep s"
proof (induction s arbitrary: i)
  case Nil
  then show ?case by simp
next
  case (Cons c cs)
  have "exec r i (c # cs) = None" using Cons.prems by simp
  moreover have "pieces r (Suc i) cs = map Keep cs"
    using Cons.prems by (intro Cons.IH) auto
  ultimately show ?case by simp
qed

lemma replace_str_no_match:
  assumes "\<And>i t. set t \<subseteq> set s \<Longrightarrow> exec r i t = None"
  shows "replace_str r m template s = s"
proof -
  have "pieces r 0 s = map Keep s" using assms by (rule pieces_Keep)
  moreover have "concat (map (\<lambda>c. [c]) s) = s" by (induction s) auto
  ultimately show ?thesis by (simp add: replace_str_def comp_def)
qed

lemma seq_Nil: "seq [] = Eps"
  by (simp add: seq_def)

lemma seq_Cons: "seq (r # rs) = Seq r (seq rs)"
  by (simp add: seq_def)

lemma color_run_first: "CHR 0x03 \<notin> set s \<Longrightarrow> exec color_run i s = None"
proof (rule exec_None)
  assume "CHR 0x03 \<notin> set s"
  then have "ms (Chr CHR 0x03) (\<lambda>_. None, i, s) = []"
    by (intro ms_Chr_absent) (simp add: rest_of_def)
  then show "ms color_run (\<lambda>_. None, i, s) = []"
    unfolding color_run_def seq_Cons by (rule ms_Seq_left)
qed

lemma bold_run_first: "CHR 0x02 \<notin> set s \<Longrightarrow> exec bold_run i s = None"
proof (rule exec_None)
  assume "CHR 0x02 \<notin> set s"
  then have "ms (Chr CHR 0x02) (\<lambda>_. None, i, s) = []"
    by (intro ms_Chr_absent) (simp add: rest_of_def)
  then show "ms bold_run (\<lambda>_. None, i, s) = []"
    unfolding bold_run_def seq_Cons by (rule ms_Seq_left)
qed

lemma reset_absent: "CHR 0x0F \<notin> set (rest_of st) \<Longrightarrow> ms (Seq (Chr CHR 0x0F) Eps) st = []"
  by (rule ms_Seq_left) (rule ms_Chr_absent)

lemma color_run_last: "CHR 0x0F \<notin> set s \<Longrightarrow> exec color_run i s = None"
proof (rule exec_None)
  let ?c = "CHR 0x0F"
  let ?r4 = "Seq (Grp 1 (LazyPlus (Cls is_dot))) (Seq (Chr ?c) Eps)"
  let ?r3 = "Seq (Cls is_digit) ?r4"
  let ?r2 = "Seq (Cls is_digit) ?r3"
  assume s: "?c \<notin> set s"
  have r4: "ms ?r4 st = []" if "?c \<notin> set (rest_of st)" for st
    using reset_absent that by (rule ms_Seq_right)
  have r3: "ms ?r3 st = []" if "?c \<notin> set (rest_of st)" for st
    using r4 that by (rule ms_Seq_right)
  have r2: "ms ?r2 st = []" if "?c \<notin> set (rest_of st)" for st
    using r3 that by (rule ms_Seq_right)
  have "ms (Seq (Chr CHR 0x03) ?r2) (\<lambda>_. None, i, s) = []"
  proof (rule ms_Seq_right [OF r2])
    show "?c \<notin> set (rest_of (\<lambda>_. None, i, s))" using s by (simp add: rest_of_def)
  qed
  then show "ms color_run (\<lambda>_. None, i, s) = []"
    by (simp only: color_run_def seq_Cons seq_Nil)
qed

lemma bold_run_last: "CHR 0x0F \<notin> set s \<Longrightarrow> exec bold_run i s = None"
proof (rule exec_None)
  let ?c = "CHR 0x0F"
  let ?r2 = "Seq (Grp 1 (LazyPlus (Cls is_dot))) (Seq (Chr ?c) Eps)"
  assume s: "?c \<notin> set s"
  have r2: "ms ?r2 st = []" if "?c \<notin> set (rest_of st)" for st
    using reset_absent that by (rule ms_Seq_right)
  have "ms (Seq (Chr CHR 0x02) ?r2) (\<lambda>_. None, i, s) = []"
  proof (rule ms_Seq_right [OF r2])
    show "?c \<notin> set (rest_of (\<lambda>_. None, i, s))" using s by (simp add: rest_of_def)
  qed
  then show "ms bold_run (\<lambda>_. None, i, s) = []"
    by (simp only: bold_run_def seq_Cons seq_Nil)
qed

section \<open>Formatting of legacy text\<close>

text \<open>
  C9. \<open>convertFormatting\<close> is the identity on clean text: a text with no color-code
  character (\<open>\x03\<close>) and no bold character (\<open>\x02\<close>) is returned as it is, whatever else
  it holds; and a text with no reset character (\<open>\x0F\<close>), so one in which every control
  sequence is unterminated, is returned as it is too. The function has no error outcome.
\<close>

theorem convertFormatting_identity:
  "(CHR 0x03 \<notin> set text \<and> CHR 0x02 \<notin> set text \<longrightarrow> convertFormatting text = text)
   \<and> (CHR 0x0F \<notin> set text \<longrightarrow> convertFormatting text = text)"
proof (intro conjI impI)
  assume "CHR 0x03 \<notin> set text \<and> CHR 0x02 \<notin> set text"
  then have "replace_str color_run 1 tc text = text" "replace_str bold_run 1 tb text = text" for tc tb
    by (auto intro!: replace_str_no_match color_run_first bold_run_first)
  then show "convertFormatting text = text" by (simp add: convertFormatting_def)
next
  assume "CHR 0x0F \<notin> set text"
  then have "replace_str color_run 1 tc text = text" "replace_str bold_run 1 tb text = text" for tc tb
    by (auto intro!: replace_str_no_match color_run_last bold_run_last)
  then show "convertFormatting text = text" by (simp add: convertFormatting_def)
qed

theorem convertFormatting_identity_witness:
  "convertFormatting ''plain text'' = ''plain text''
   \<and> convertFormatting (CHR 0x03 # ''04red'') = CHR 0x03 # ''04red''"
proof -
  have a: "CHR 0x03 \<notin> set ''plain text'' \<and> CHR 0x02 \<notin> set ''plain text''" by simp
  have b: "CHR 0x0F \<notin> set (CHR 0x03 # ''04red'')" by simp
  from convertFormatting_identity [of "''plain text''"] a
    convertFormatting_identity [of "CHR 0x03 # ''04red''"] b
  show ?thesis by blast
qed

section \<open>The channel tables\<close>



















lemma constructor_example: "Bot_constructor (\<lambda>_. True) opts0 = Inr bot0"
proof -
  have "build_channelMapping [(''#general'', ''#General-IRC secret'')]
          = [(''#general'', ''#general-irc'')]"
    "invert [(''#general'', ''#general-irc'')] = [(''#general-irc'', ''#general'')]"
    by code_simp+
  then show ?thesis
    by (simp add: Bot_constructor_def opts0_def bot0_def truthy_def js_str_def mkNickRegex_def
        sl_regex_def syntax_chars_def)
qed



section \<open>Mute lists and shadow sessions\<close>

text \<open>
  C4. A workspace message whose sender's user name is in the workspace mute list makes
  \<open>sendToIRC\<close> return without any effect, so without a send on the legacy network; and a
  legacy message whose author is in the legacy mute list makes \<open>sendToSlack\<close> return
  without any effect, so without a send on the workspace.
\<close>

theorem mute_enforcement:
  "(getUserById ds (msg_user msg) = Some u \<longrightarrow> user_name u \<in> set (muteUsers_slack b)
      \<longrightarrow> sendToIRC emojis b ds msg = ([], None))
   \<and> (author \<in> set (muteUsers_irc b) \<longrightarrow> sendToSlack b ds author chan text = ([], None))"
  by (simp add: sendToIRC_def sendToSlack_def split: option.split list.split)

theorem mute_enforcement_witness:
  "sendToIRC Map.empty bot0 ds0 (msg0 ''U2'' ''hello'') = ([], None)
   \<and> sendToSlack bot0 ds0 ''spammer'' ''#general-irc'' ''hello'' = ([], None)"
proof -
  have "getUserById ds0 (msg_user (msg0 ''U2'' ''hello'')) = Some \<lparr> user_name = ''mallory'' \<rparr>"
    by (simp add: ds0_def msg0_def)
  moreover have "user_name \<lparr> user_name = ''mallory'' \<rparr> \<in> set (muteUsers_slack bot0)"
    by (simp add: bot0_def)
  moreover have "''spammer'' \<in> set (muteUsers_irc bot0)" by (simp add: bot0_def)
  ultimately show ?thesis
    using mute_enforcement [of ds0 "msg0 ''U2'' ''hello''" "\<lparr> user_name = ''mallory'' \<rparr>" bot0
        Map.empty "''spammer''" "''#general-irc''" "''hello''"]
    by blast
qed

text \<open>
  C5. A legacy message whose author is the nick of a live shadow session (an entry of
  \<open>ircClients\<close>) makes \<open>sendToSlack\<close> perform no effect, whatever the text and the channel:
  nothing is posted to the workspace.
\<close>

theorem echo_suppression:
  "author \<in> set (currentShadowNicks b) \<Longrightarrow> fst (sendToSlack b ds author chan text) = []"
  by (simp add: sendToSlack_def split: option.split list.split sum.split)

theorem echo_suppression_witness:
  "fst (sendToSlack bot1 ds0 ''alice-sl'' ''#general-irc'' ''hello'') = []"
proof -
  have "''alice-sl'' \<in> set (currentShadowNicks bot1)"
    by (simp add: currentShadowNicks_def bot1_def bot0_def)
  then show ?thesis by (rule echo_suppression)
qed

text \<open>Without the session, the same message is posted.\<close>

lemma shadow_not_vacuous:
  "sendToSlack bot0 ds0 ''alice-sl'' ''#general-irc'' ''hello'' =
     ([PostMessage ''C1'' ''hello'' \<lparr> username = ''alice-sl (IRC)'', parse = ''full'',
        icon_url = Some ''http://api.adorable.io/avatars/48/alice-sl.png'' \<rparr>], None)"
  by code_simp

section \<open>Command messages\<close>

text \<open>
  A message whose parsed text starts with a command character is relayed as a command
  whenever \<open>processCommandMessage\<close> returns: after what the handler did, the notice and
  then the parsed text are said to the mapped channel.
\<close>

lemma sendToIRC_command:
  assumes "getChannelGroupOrDMById ds (msg_channel msg) = Some ch"
    and "\<not> (muteSlackbot b \<and> msg_user msg = ''USLACKBOT'')"
    and "getUserById ds (msg_user msg) = Some u"
    and "user_name u \<notin> set (muteUsers_slack b)"
    and "map_of (channelMapping b) (channelName_of ch) = Some ircChannel"
    and "ircChannel \<noteq> []"
    and "parseText emojis b ds (msg_text msg) = Inr text"
    and "isCommandMessage b text"
    and "processCommandMessage b ds msg = (es, None)"
  shows "sendToIRC emojis b ds msg =
           (es @ [IrcSay ircChannel (''Command sent from Slack by '' @ user_name u @ '':''),
                  IrcSay ircChannel text], None)"
proof -
  from assms(6) obtain x xs where "ircChannel = x # xs" by (cases ircChannel) auto
  with assms show ?thesis by (simp add: sendToIRC_def)
qed

text \<open>
  C3, as the code has it. When the text after the first character does not match the
  expression of \<open>processCommandMessage\<close>, no handler runs, and the message is still relayed
  as a command: \<open>sendToIRC\<close> says the notice \<open>Command sent from Slack by <user>:\<close> and then
  the parsed text itself to the mapped channel. The text is not formatted as
  \<open><user> <text>\<close>.
\<close>

theorem unmatched_command_relayed:
  assumes "getChannelGroupOrDMById ds (msg_channel msg) = Some ch"
    and "\<not> (muteSlackbot b \<and> msg_user msg = ''USLACKBOT'')"
    and "getUserById ds (msg_user msg) = Some u"
    and "user_name u \<notin> set (muteUsers_slack b)"
    and "map_of (channelMapping b) (channelName_of ch) = Some ircChannel"
    and "ircChannel \<noteq> []"
    and "parseText emojis b ds (msg_text msg) = Inr text"
    and "isCommandMessage b text"
    and "search command_regex 0 (drop 1 (msg_text msg)) = None"
  shows "sendToIRC emojis b ds msg =
           ([IrcSay ircChannel (''Command sent from Slack by '' @ user_name u @ '':''),
             IrcSay ircChannel text], None)"
proof -
  from assms(9) have "processCommandMessage b ds msg = ([], None)"
    by (simp add: processCommandMessage_def)
  from sendToIRC_command [OF assms(1-8) this] show ?thesis by simp
qed

lemma ex_parse: "parseText Map.empty bot0 ds0 ''.!'' = Inr ''.!''"
  by code_simp

lemma ex_nomatch: "search command_regex 0 (drop 1 ''.!'') = None"
  by code_simp

theorem unmatched_command_relayed_witness:
  "sendToIRC Map.empty bot0 ds0 (msg0 ''U1'' ''.!'') =
     ([IrcSay ''#general-irc'' ''Command sent from Slack by alice:'',
       IrcSay ''#general-irc'' ''.!''], None)"
proof -
  have "sendToIRC Map.empty bot0 ds0 (msg0 ''U1'' ''.!'') =
     ([IrcSay ''#general-irc'' (''Command sent from Slack by ''
          @ user_name \<lparr> user_name = ''alice'' \<rparr> @ '':''),
       IrcSay ''#general-irc'' ''.!''], None)"
  proof (rule unmatched_command_relayed [where ch = general])
    show "getChannelGroupOrDMById ds0 (msg_channel (msg0 ''U1'' ''.!'')) = Some general"
      by (simp add: ds0_def msg0_def)
    show "\<not> (muteSlackbot bot0 \<and> msg_user (msg0 ''U1'' ''.!'') = ''USLACKBOT'')"
      by (simp add: bot0_def)
    show "getUserById ds0 (msg_user (msg0 ''U1'' ''.!'')) = Some \<lparr> user_name = ''alice'' \<rparr>"
      by (simp add: ds0_def msg0_def)
    show "user_name \<lparr> user_name = ''alice'' \<rparr> \<notin> set (muteUsers_slack bot0)"
      by (simp add: bot0_def)
    show "map_of (channelMapping bot0) (channelName_of general) = Some ''#general-irc''"
      by (simp add: bot0_def channelName_of_def general_def js_str_def)
    show "''#general-irc'' \<noteq> []" by simp
    show "parseText Map.empty bot0 ds0 (msg_text (msg0 ''U1'' ''.!'')) = Inr ''.!''"
      using ex_parse by (simp add: msg0_def)
    show "isCommandMessage bot0 ''.!''" by (simp add: isCommandMessage_def bot0_def)
    show "search command_regex 0 (drop 1 (msg_text (msg0 ''U1'' ''.!''))) = None"
      using ex_nomatch by (simp add: msg0_def)
  qed
  then show ?thesis by simp
qed

text \<open>
  C3, as it is stated, fails on the message \<open>.!\<close>: the text starts with the command
  character \<open>.\<close>, the rest \<open>!\<close> does not match the expression, and what is sent is not
  \<open><alice> .!\<close> alone: the notice is among the effects.
\<close>

theorem unmatched_command_counterexample:
  "isCommandMessage bot0 ''.!''
   \<and> search command_regex 0 (drop 1 (msg_text (msg0 ''U1'' ''.!''))) = None
   \<and> sendToIRC Map.empty bot0 ds0 (msg0 ''U1'' ''.!'') \<noteq> ([IrcSay ''#general-irc'' ''<alice> .!''], None)
   \<and> IrcSay ''#general-irc'' ''Command sent from Slack by alice:''
       \<in> set (fst (sendToIRC Map.empty bot0 ds0 (msg0 ''U1'' ''.!'')))"
  by code_simp

text \<open>
  Whatever the bot, the directory and the channel: when the command is \<open>msg\<close> and a text
  follows the nick, \<open>processCommandMessage\<close> throws.
\<close>

lemma msg_with_text_throws:
  assumes "search command_regex 0 (drop 1 (msg_text msg)) = Some (i, mt, cp)"
    and "cp 1 = Some ''msg''" and "truthy (cp 3)"
  shows "processCommandMessage b ds msg = ([], Some ReferenceError)"
  using assms by (simp add: processCommandMessage_def)

text \<open>
  C1. The command \<open>.msg bob hello\<close>, sent by an unmuted user in the mapped shared channel,
  makes \<open>processCommandMessage\<close> throw a \<open>ReferenceError\<close> at the call of \<open>priv\<close>, and
  \<open>sendToIRC\<close> ends with that exception before any effect: no refusal is sent to the
  sender, and nothing is queued.
\<close>

theorem msg_command_throws:
  "processCommandMessage bot0 ds0 (msg0 ''U1'' ''.msg bob hello'') = ([], Some ReferenceError)
   \<and> sendToIRC Map.empty bot0 ds0 (msg0 ''U1'' ''.msg bob hello'') = ([], Some ReferenceError)"
  by code_simp

text \<open>
  C10. Two command messages for which nothing is said to the mapped channel:
  \<open>.topic\<close> without an argument, where \<open>setNewTopic\<close> throws a \<open>TypeError\<close>, and
  \<open>.msg bob hi\<close>, where the call of \<open>priv\<close> throws a \<open>ReferenceError\<close>. In both the parsed
  text starts with the command character, and \<open>sendToIRC\<close> ends with the exception before
  the notice and the text.
\<close>

theorem command_not_relayed:
  "parseText Map.empty bot0 ds0 ''.topic'' = Inr ''.topic''
   \<and> isCommandMessage bot0 ''.topic''
   \<and> sendToIRC Map.empty bot0 ds0 (msg0 ''U1'' ''.topic'') = ([], Some TypeError)
   \<and> parseText Map.empty bot0 ds0 ''.msg bob hi'' = Inr ''.msg bob hi''
   \<and> isCommandMessage bot0 ''.msg bob hi''
   \<and> sendToIRC Map.empty bot0 ds0 (msg0 ''U1'' ''.msg bob hi'') = ([], Some ReferenceError)"
  by code_simp

section \<open>References that the directory does not know\<close>

text \<open>
  Where the directory knows every channel and every user, \<open>parseText\<close> returns a text:
  the two lookups are all that can throw in it.
\<close>

lemma replace_try_total:
  assumes "\<And>mt cp. \<exists>u. f mt cp = Inr u"
  shows "\<exists>t. replace_try f ps = Inr t"
proof (induction ps)
  case Nil
  then show ?case by simp
next
  case (Cons p ps)
  then obtain t where t: "replace_try f ps = Inr t" by blast
  show ?case
  proof (cases p)
    case (Keep c)
    with t show ?thesis by simp
  next
    case (Match i mt cp)
    from assms obtain u where "f mt cp = Inr u" by blast
    with t Match show ?thesis by simp
  qed
qed

lemma parseText_resolved:
  assumes chans: "\<And>i. getChannelById ds i \<noteq> None"
    and users: "\<And>i. getUserById ds i \<noteq> None"
  shows "\<exists>t. parseText emojis b ds text = Inr t"
proof -
  define fc where "fc = (\<lambda>(match :: string) (cp :: caps). case getChannelById ds (capture cp 1) of
                    None \<Rightarrow> Inl TypeError
                  | Some ch \<Rightarrow> Inr (if truthy (cp 2) then capture cp 2
                                    else CHR ''#'' # js_str (chan_name ch)))"
  define fu where "fu = (\<lambda>(match :: string) (cp :: caps). case getUserById ds (capture cp 1) of
                    None \<Rightarrow> Inl TypeError
                  | Some usr \<Rightarrow> Inr (if truthy (cp 2) then capture cp 2
                                     else CHR ''@'' # user_name usr))"
  have c: "\<exists>u. fc mt cp = Inr u" for mt cp
    using chans [of "capture cp 1"] by (cases "getChannelById ds (capture cp 1)") (auto simp: fc_def)
  have u: "\<exists>u. fu mt cp = Inr u" for mt cp
    using users [of "capture cp 1"] by (cases "getUserById ds (capture cp 1)") (auto simp: fu_def)
  have p: "parseText emojis b ds text =
      (case replace_try fc (pieces channel_ref 0 (replace_str (lit ''<!everyone>'') 0 ''@everyone''
          (replace_str (lit ''<!group>'') 0 ''@group''
          (replace_str (lit ''<!channel>'') 0 ''@channel''
          (replace_str (lit ''&gt;'') 0 ''>''
          (replace_str (lit ''&lt;'') 0 ''<''
          (replace_str (lit ''&amp;'') 0 ''&''
          (replace_str (Alt (Chr CHR 0x0A) (Alt (lit [CHR 0x0D, CHR 0x0A]) (Chr CHR 0x0D)))
             0 '' '' text)))))))) of
         Inl e \<Rightarrow> Inl e
       | Inr t8 \<Rightarrow>
          (case replace_try fu (pieces user_ref 0 t8) of
             Inl e \<Rightarrow> Inl e
           | Inr t9 \<Rightarrow>
               Inr (replace_fn labelled_link (\<lambda>match cp. capture cp 1)
                 (replace_fn SLACK_REGEX
                    (\<lambda>match cp. if ircNick b (capture cp 1) \<in> set (currentShadowNicks b)
                                then ircNick b (capture cp 1) else match)
                 (replace_fn emoji_code
                    (\<lambda>match cp. case emojis (capture cp 1) of
                         Some glyph \<Rightarrow> glyph
                       | None \<Rightarrow> match)
                 (replace_fn command_ref
                    (\<lambda>match cp. ''<'' @ (if truthy (cp 2) then capture cp 2
                                         else capture cp 1) @ ''>'')
                 (replace_fn bare_link (\<lambda>match cp. capture cp 1) t9)))))))"
    by (simp only: parseText_def Let_def fc_def fu_def)
  from replace_try_total [of fc, OF c] obtain t8 where
    "replace_try fc (pieces channel_ref 0 (replace_str (lit ''<!everyone>'') 0 ''@everyone''
          (replace_str (lit ''<!group>'') 0 ''@group''
          (replace_str (lit ''<!channel>'') 0 ''@channel''
          (replace_str (lit ''&gt;'') 0 ''>''
          (replace_str (lit ''&lt;'') 0 ''<''
          (replace_str (lit ''&amp;'') 0 ''&''
          (replace_str (Alt (Chr CHR 0x0A) (Alt (lit [CHR 0x0D, CHR 0x0A]) (Chr CHR 0x0D)))
             0 '' '' text)))))))) = Inr t8" by blast
  moreover from replace_try_total [of fu, OF u] obtain t9 where
    "replace_try fu (pieces user_ref 0 t8) = Inr t9" by blast
  ultimately show ?thesis by (simp only: p sum.case) blast
qed

text \<open>
  C2. \<open>parseText\<close> throws on a channel reference and on a user reference whose id the
  directory does not know: the text \<open>see <#C999>\<close> and the text \<open>hi <@U999>\<close> both end in
  a \<open>TypeError\<close>, where the directory returns \<open>undefined\<close> for \<open>C999\<close> and for \<open>U999\<close>.
\<close>

theorem parseText_unresolved_throws:
  "getChannelById ds0 ''C999'' = None
   \<and> parseText Map.empty bot0 ds0 ''see <#C999>'' = Inl TypeError
   \<and> getUserById ds0 ''U999'' = None
   \<and> parseText Map.empty bot0 ds0 ''hi <@U999>'' = Inl TypeError"
  by code_simp

section \<open>Highlighting of user names\<close>

text \<open>
  A name with no \<open>.\<close> and no other syntax character of regular expressions is read as
  itself. For such a name \<open>highlightUsername\<close> prefixes exactly the tokens that do not
  start with \<open>@\<close> and the name and that are the name, or the name and one of \<open>,.:!?\<close>;
  and applying it to its own result changes nothing.
\<close>

lemma lit_Nil: "lit [] = Eps"
  by (simp add: lit_def)

lemma lit_Cons: "lit (c # cs) = Seq (Chr c) (lit cs)"
  by (simp add: lit_def)

lemma pattern_atoms_literal:
  "\<forall>c\<in>set u. c \<noteq> CHR ''.'' \<and> c \<notin> set syntax_chars \<Longrightarrow> pattern_atoms u = Some (lit u)"
  by (induction u) (simp_all add: lit_Nil lit_Cons)

lemma ms_lit:
  "ms (lit u) (cp, i, s) =
     (if take (length u) s = u then [(cp, i + length u, drop (length u) s)] else [])"
proof (induction u arbitrary: i s)
  case Nil
  then show ?case by (simp add: lit_Nil)
next
  case (Cons c u)
  show ?case
  proof (cases s)
    case Nil
    then show ?thesis by (simp add: lit_Cons)
  next
    case (Cons x xs)
    with Cons.IH [of "Suc i" xs] show ?thesis by (auto simp: lit_Cons)
  qed
qed

lemma ms_name_tail:
  "ms (Seq (Opt (Cls P)) Eol) (cp, j, r) \<noteq> [] \<longleftrightarrow> r = [] \<or> (\<exists>p. P p \<and> r = [p])"
proof (cases r)
  case Nil
  then show ?thesis by (simp add: rest_of_def)
next
  case (Cons x xs)
  then show ?thesis by (cases xs) (auto simp: rest_of_def)
qed

lemma ms_anchored_later: "i \<noteq> 0 \<Longrightarrow> ms (Seq Bol r) (cp, i, s) = []"
  by (simp add: pos_of_def)

lemma search_anchored_later: "i \<noteq> 0 \<Longrightarrow> search (Seq Bol r) i s = None"
proof (induction s arbitrary: i)
  case Nil
  then show ?case by (simp add: exec_def ms_anchored_later del: ms.simps)
next
  case (Cons c cs)
  then show ?case by (simp add: exec_def ms_anchored_later del: ms.simps)
qed

lemma test_anchored: "test (Seq Bol r) w \<longleftrightarrow> ms r (\<lambda>_. None, 0, w) \<noteq> []"
proof -
  have e: "exec (Seq Bol r) 0 w = None \<longleftrightarrow> ms r (\<lambda>_. None, 0, w) = []"
    by (auto simp: exec_def pos_of_def split: list.splits)
  show ?thesis
  proof (cases w)
    case Nil
    with e show ?thesis by (auto simp: test_def split: option.splits)
  next
    case (Cons c cs)
    have "search (Seq Bol r) (Suc 0) cs = None" by (rule search_anchored_later) simp
    with e Cons show ?thesis by (auto simp: test_def split: option.splits)
  qed
qed

lemma test_literal_name:
  "test (Seq Bol (Seq (lit u) (Seq (Opt (Cls P)) Eol))) w
     \<longleftrightarrow> w = u \<or> (\<exists>p. P p \<and> w = u @ [p])"
proof -
  have "ms (Seq (lit u) (Seq (Opt (Cls P)) Eol)) (\<lambda>_. None, 0, w) \<noteq> []
        \<longleftrightarrow> take (length u) w = u
            \<and> ms (Seq (Opt (Cls P)) Eol) (\<lambda>_. None, length u, drop (length u) w) \<noteq> []"
    using ms_lit [of u "\<lambda>_. None" 0 w] by (simp del: ms.simps add: ms.simps(3))
  also have "\<dots> \<longleftrightarrow> take (length u) w = u
      \<and> (drop (length u) w = [] \<or> (\<exists>p. P p \<and> drop (length u) w = [p]))"
    by (simp only: ms_name_tail)
  also have "\<dots> \<longleftrightarrow> w = u \<or> (\<exists>p. P p \<and> w = u @ [p])"
  proof -
    have w: "w = take (length u) w @ drop (length u) w" by simp
    show ?thesis
    proof
      assume a: "take (length u) w = u \<and> (drop (length u) w = [] \<or> (\<exists>p. P p \<and> drop (length u) w = [p]))"
      then have "w = u @ drop (length u) w" using append_take_drop_id [of "length u" w] by metis
      with a show "w = u \<or> (\<exists>p. P p \<and> w = u @ [p])" by auto
    next
      assume "w = u \<or> (\<exists>p. P p \<and> w = u @ [p])"
      then show "take (length u) w = u \<and> (drop (length u) w = [] \<or> (\<exists>p. P p \<and> drop (length u) w = [p]))"
        by auto
    qed
  qed
  finally show ?thesis by (simp only: test_anchored)
qed

lemma highlightUsername_literal:
  assumes "\<forall>c\<in>set user. c \<noteq> CHR ''.'' \<and> c \<notin> set syntax_chars"
  shows "highlightUsername user text =
     Inr (join_str '' ''
           (map (\<lambda>word. if \<not> starts_with (CHR ''@'' # user) word
                            \<and> (word = user \<or> (\<exists>p\<in>set '',.:!?''. word = user @ [p]))
                         then CHR ''@'' # word else word)
                (split_str CHR '' '' text)))"
proof -
  have "userRegExp user =
      Some (Seq Bol (Seq (lit user) (Seq (Opt (Cls (\<lambda>c. c \<in> set '',.:!?''))) Eol)))"
    using pattern_atoms_literal [OF assms] by (simp only: userRegExp_def option.map)
  moreover have "(\<lambda>word. if starts_with (CHR ''@'' # user) word then word
                   else if test (Seq Bol (Seq (lit user)
                             (Seq (Opt (Cls (\<lambda>c. c \<in> set '',.:!?''))) Eol))) word
                        then CHR ''@'' # word else word)
      = (\<lambda>word. if \<not> starts_with (CHR ''@'' # user) word
                            \<and> (word = user \<or> (\<exists>p\<in>set '',.:!?''. word = user @ [p]))
                         then CHR ''@'' # word else word)"
    by (intro ext) (simp only: test_literal_name Bex_def, auto)
  ultimately show ?thesis by (simp only: highlightUsername_def option.case)
qed

lemma split_str_nonempty: "split_str d s \<noteq> []"
  by (induction s) (auto split: list.splits)

lemma split_str_no_sep: "w \<in> set (split_str d s) \<Longrightarrow> d \<notin> set w"
proof (induction s arbitrary: w)
  case Nil
  then show ?case by simp
next
  case (Cons c cs)
  then show ?case by (auto split: if_splits list.splits)
qed

lemma split_str_single: "d \<notin> set w \<Longrightarrow> split_str d w = [w]"
  by (induction w) auto

lemma split_str_append: "d \<notin> set w \<Longrightarrow> split_str d (w @ d # r) = w # split_str d r"
  by (induction w) auto

lemma split_join:
  "ws \<noteq> [] \<Longrightarrow> \<forall>w\<in>set ws. d \<notin> set w \<Longrightarrow> split_str d (join_str [d] ws) = ws"
proof (induction "[d]" ws rule: join_str.induct)
  case 1
  then show ?case by simp
next
  case (2 w)
  then show ?case by (simp add: split_str_single)
next
  case (3 w v ws)
  then show ?case by (simp add: split_str_append)
qed

lemma highlightUsername_literal_idem:
  assumes name: "\<forall>c\<in>set user. c \<noteq> CHR ''.'' \<and> c \<notin> set syntax_chars"
    and once: "highlightUsername user text = Inr t"
  shows "highlightUsername user t = Inr t"
proof -
  define f where "f = (\<lambda>word. if \<not> starts_with (CHR ''@'' # user) word
                            \<and> (word = user \<or> (\<exists>p\<in>set '',.:!?''. word = user @ [p]))
                         then CHR ''@'' # word else word)"
  have h: "highlightUsername user s = Inr (join_str '' '' (map f (split_str CHR '' '' s)))" for s
    unfolding f_def by (rule highlightUsername_literal [OF name])
  have ff: "f (f w) = f w" for w
    by (auto simp: f_def starts_with_def)
  have sp: "CHR '' '' \<notin> set (f w)" if "CHR '' '' \<notin> set w" for w
    using that by (simp add: f_def)
  let ?ws = "map f (split_str CHR '' '' text)"
  from once h have t: "t = join_str '' '' ?ws" by simp
  have "?ws \<noteq> []" by (simp add: split_str_nonempty)
  moreover have "\<forall>w\<in>set ?ws. CHR '' '' \<notin> set w"
    using split_str_no_sep sp by auto
  ultimately have "split_str CHR '' '' t = ?ws" unfolding t by (rule split_join)
  then have "highlightUsername user t = Inr (join_str '' '' (map f ?ws))" by (simp add: h)
  also have "map f ?ws = ?ws" by (simp add: ff)
  finally show ?thesis by (simp add: t)
qed

text \<open>
  C6. \<open>highlightUsername\<close> applied twice is not always what it is applied once. For the
  name \<open>.\<close> the token \<open>!\<close> becomes \<open>@!\<close>, and \<open>@!\<close> becomes \<open>@@!\<close>: the name is read as a
  pattern, in which \<open>.\<close> matches the \<open>@\<close> that the first pass added. The pass over the
  members \<open>.ab\<close> and \<open>ab\<close> turns \<open>ab\<close> into \<open>@ab\<close>, and run again turns \<open>@ab\<close> into
  \<open>@@ab\<close>.
\<close>

theorem highlightUsername_twice:
  "highlightUsername ''.'' ''!'' = Inr ''@!''
   \<and> highlightUsername ''.'' ''@!'' = Inr ''@@!''
   \<and> reduce_highlight [''.ab'', ''ab''] ''ab'' = Inr ''@ab''
   \<and> reduce_highlight [''.ab'', ''ab''] ''@ab'' = Inr ''@@ab''"
  by code_simp

text \<open>
  C7. For the name \<open>a.b\<close> the token \<open>axb\<close>, which is not the name and not the name followed
  by one of \<open>,.:!?\<close>, is prefixed with \<open>@\<close>.
\<close>

theorem highlightUsername_pattern:
  "highlightUsername ''a.b'' ''axb'' = Inr ''@axb''"
  by code_simp

end
